theory Spec2Isabelle
  imports Complex_Main
begin

unbundle bit_operations_syntax

section \<open>Common vocabulary: exceptions, outcomes, observable effects\<close>

text \<open>
  The three Python modules \<^verbatim>\<open>camera_module.py\<close>, \<^verbatim>\<open>google_photos.py\<close> and
  \<^verbatim>\<open>main.py\<close> are embedded as functions on an explicit program state.

  An exception is represented by its class name and by \<^verbatim>\<open>str(e)\<close>, the text that the
  marker tests of the source inspect. A function of the camera module or of the client
  either raises an \<^verbatim>\<open>Exception\<close> (\<open>Inl\<close>) or returns a value (\<open>Inr\<close>). A function of
  the scheduler can also leave through \<^verbatim>\<open>sys.exit(code)\<close>; this raises \<^verbatim>\<open>SystemExit\<close>,
  which no \<^verbatim>\<open>except Exception\<close> clause of the source catches, so it is a third outcome
  of its own.
\<close>

datatype exn = Exn (exn_class: string) (str: string)

datatype 'a outcome = Returned 'a | Raised exn | Exited int

text \<open>Properties of the capture device that \<^verbatim>\<open>save_photo\<close> sets with \<^verbatim>\<open>cap.set\<close>.\<close>

datatype cap_prop =
    CAP_PROP_FOURCC | CAP_PROP_FRAME_WIDTH | CAP_PROP_FRAME_HEIGHT | CAP_PROP_FPS
  | CAP_PROP_AUTO_EXPOSURE | CAP_PROP_AUTO_WB | CAP_PROP_AUTOFOCUS | CAP_PROP_FOCUS
  | CAP_PROP_BRIGHTNESS | CAP_PROP_CONTRAST | CAP_PROP_SATURATION | CAP_PROP_ZOOM

text \<open>
  Every effect on the outside world is recorded, in program order, as an event.
  Logging is left out: no logger call of the source influences control flow, except for
  the subscripts evaluated inside one f-string of \<^verbatim>\<open>create_album\<close>, which are modelled
  where they occur.
\<close>

datatype event =
    VideoCapture int            \<comment> \<open>\<^verbatim>\<open>cv2.VideoCapture(device_id)\<close>: the handle is acquired\<close>
  | CapSet cap_prop rat         \<comment> \<open>\<^verbatim>\<open>cap.set(prop, value)\<close>\<close>
  | CapRead                     \<comment> \<open>\<^verbatim>\<open>cap.read()\<close>\<close>
  | CapRelease                  \<comment> \<open>\<^verbatim>\<open>cap.release()\<close>\<close>
  | DestroyAllWindows
  | PutText
  | Makedirs string
  | Imwrite string
  | Sleep nat                   \<comment> \<open>\<^verbatim>\<open>sleep(n)\<close> / \<^verbatim>\<open>time.sleep(n)\<close>, in seconds\<close>
  | GetService                  \<comment> \<open>\<^verbatim>\<open>self._get_service()\<close>\<close>
  | Call string                 \<comment> \<open>one invocation of a callback by \<^verbatim>\<open>_execute_api\<close>\<close>
  | OsRemove string             \<comment> \<open>\<^verbatim>\<open>os.remove(path)\<close>\<close>
  | SnsPublish                  \<comment> \<open>\<^verbatim>\<open>boto3.client('sns', ...)\<close> followed by \<^verbatim>\<open>sns.publish(...)\<close>\<close>

text \<open>
  The program state: the state of everything remote (the photo library, the network, the
  notification service; an arbitrary type \<open>'r\<close>), the set of regular files on the local disk,
  and the events so far. The collaborators outside the repository act on the remote
  state only; the local files change by \<^verbatim>\<open>cv2.imwrite\<close> and \<^verbatim>\<open>os.remove\<close>.
\<close>

record 'r state =
  remote :: 'r
  files :: "string set"
  trace :: "event list"

definition emit :: "event \<Rightarrow> 'r state \<Rightarrow> 'r state" where
  "emit ev s = s\<lparr>trace := trace s @ [ev]\<rparr>"

definition emits :: "event list \<Rightarrow> 'r state \<Rightarrow> 'r state" where
  "emits evs s = s\<lparr>trace := trace s @ evs\<rparr>"

section \<open>\<^verbatim>\<open>camera_module.py\<close>\<close>

definition DEVICE_ID :: int where
  "DEVICE_ID = 0"

text \<open>
  \<^verbatim>\<open>decode_fourcc\<close>: \<^verbatim>\<open>"".join([chr((v >> 8 * i) & 0xFF) for i in range(4)])\<close> on the
  unbounded Python integer \<^verbatim>\<open>int(v)\<close>. Python's \<^verbatim>\<open>>>\<close> and \<^verbatim>\<open>&\<close> on negative integers
  are those of two's complement, as \<open>drop_bit\<close> and \<open>AND\<close> on \<open>int\<close> are. Each character
  code lies in 0..255, the range of \<open>char\<close>.
\<close>

definition decode_fourcc :: "int \<Rightarrow> string" where
  "decode_fourcc v = map (\<lambda>i. char_of (drop_bit (8 * i) v AND 255)) [0..<4]"

text \<open>
  The little-endian packing of a string of character codes into one integer, the first
  character in the least significant byte. On four characters this is what
  \<^verbatim>\<open>cv2.VideoWriter_fourcc(c1, c2, c3, c4)\<close> computes.
\<close>

definition pack_fourcc :: "string \<Rightarrow> int" where
  "pack_fourcc s = foldr (\<lambda>c acc. of_char c + 256 * acc) s 0"

definition VideoWriter_fourcc :: "char \<Rightarrow> char \<Rightarrow> char \<Rightarrow> char \<Rightarrow> int" where
  "VideoWriter_fourcc c1 c2 c3 c4 = pack_fourcc [c1, c2, c3, c4]"

text \<open>
  The \<^verbatim>\<open>settings\<close> dictionary of the configuration. A field is \<open>None\<close> when its key is
  absent. The source tests \<^verbatim>\<open>settings and "k" in settings and settings["k"]\<close>: the key
  is present and its value is truthy (a non-empty string, a non-zero number).
\<close>

record settings =
  fourcc :: "string option"
  width :: "int option"
  height :: "int option"
  fps :: "int option"
  camera_model :: "string option"
  focus :: "int option"

text \<open>
  What the device and the image encoder answer during one call of \<^verbatim>\<open>save_photo\<close>:
  \<^verbatim>\<open>cap.isOpened()\<close>, the flag returned by \<^verbatim>\<open>cap.read()\<close>, and the flag returned by
  \<^verbatim>\<open>cv2.imwrite\<close>.
\<close>

record camera =
  device_id :: int
  isOpened :: bool
  read_result :: bool
  imwrite_result :: bool

text \<open>
  \<^verbatim>\<open>c1, c2, c3, c4 = list(settings["fourcc"])\<close> raises \<^verbatim>\<open>ValueError\<close> unless the string
  has exactly four characters.
\<close>

definition unpack_error :: "nat \<Rightarrow> exn" where
  "unpack_error n =
     (if n < 4
      then Exn ''ValueError''
             (''not enough values to unpack (expected 4, got '' @ [char_of (48 + n)] @ '')'')
      else Exn ''ValueError'' ''too many values to unpack (expected 4)'')"

definition fourcc_setting :: "settings option \<Rightarrow> exn + event list" where
  "fourcc_setting st =
     (case st of
        None \<Rightarrow> Inr [CapSet CAP_PROP_FOURCC
                      (of_int (VideoWriter_fourcc CHR ''M'' CHR ''J'' CHR ''P'' CHR ''G''))]
      | Some cfg \<Rightarrow>
         (case fourcc cfg of
            None \<Rightarrow> Inr [CapSet CAP_PROP_FOURCC
                          (of_int (VideoWriter_fourcc CHR ''M'' CHR ''J'' CHR ''P'' CHR ''G''))]
          | Some code \<Rightarrow>
             (case code of
                [] \<Rightarrow> Inr [CapSet CAP_PROP_FOURCC
                            (of_int (VideoWriter_fourcc CHR ''M'' CHR ''J'' CHR ''P'' CHR ''G''))]
              | [c1, c2, c3, c4] \<Rightarrow>
                  Inr [CapSet CAP_PROP_FOURCC (of_int (VideoWriter_fourcc c1 c2 c3 c4))]
              | _ \<Rightarrow> Inl (unpack_error (length code)))))"

definition number_setting :: "cap_prop \<Rightarrow> int option \<Rightarrow> event list" where
  "number_setting prop v =
     (case v of
        None \<Rightarrow> []
      | Some n \<Rightarrow> if n \<noteq> 0 then [CapSet prop (of_int n)] else [])"

definition size_settings :: "settings option \<Rightarrow> event list" where
  "size_settings st =
     (case st of
        None \<Rightarrow> []
      | Some cfg \<Rightarrow>
          number_setting CAP_PROP_FRAME_WIDTH (width cfg)
          @ number_setting CAP_PROP_FRAME_HEIGHT (height cfg)
          @ number_setting CAP_PROP_FPS (fps cfg))"

definition is_EMEET :: "settings option \<Rightarrow> bool" where
  "is_EMEET st = (case st of None \<Rightarrow> False | Some cfg \<Rightarrow> camera_model cfg = Some ''EMEET'')"

definition focus_value :: "settings option \<Rightarrow> int" where
  "focus_value st =
     (case st of
        None \<Rightarrow> 255
      | Some cfg \<Rightarrow> (case focus cfg of None \<Rightarrow> 255 | Some f \<Rightarrow> f))"

definition profile_settings :: "settings option \<Rightarrow> event list" where
  "profile_settings st =
     (if is_EMEET st
      then [CapSet CAP_PROP_AUTO_EXPOSURE (1 / 4),
            CapSet CAP_PROP_AUTO_WB 1,
            CapSet CAP_PROP_AUTOFOCUS 0,
            CapSet CAP_PROP_FOCUS (of_int (focus_value st)),
            CapSet CAP_PROP_BRIGHTNESS (- 10),
            CapSet CAP_PROP_CONTRAST 35,
            CapSet CAP_PROP_SATURATION 110,
            CapSet CAP_PROP_ZOOM 50]
      else [CapSet CAP_PROP_BRIGHTNESS 128,
            CapSet CAP_PROP_CONTRAST 32,
            CapSet CAP_PROP_SATURATION 32,
            CapSet CAP_PROP_AUTO_EXPOSURE 3])"

text \<open>
  \<^verbatim>\<open>os.path.dirname\<close> on POSIX: the path up to and including its last slash, with the
  trailing slashes stripped unless it consists of slashes only.
\<close>

definition dirname :: "string \<Rightarrow> string" where
  "dirname p =
     (let head = rev (dropWhile (\<lambda>c. c \<noteq> CHR ''/'') (rev p))
      in if head \<noteq> [] \<and> \<not> list_all (\<lambda>c. c = CHR ''/'') head
         then rev (dropWhile (\<lambda>c. c = CHR ''/'') (rev head))
         else head)"

text \<open>
  \<^verbatim>\<open>CameraModule.save_photo\<close>. The statements of the source in order: the handle is
  created, the settings are applied, then the two early returns (device not opened, no
  frame read), and only on the remaining path the frame is written and
  \<^verbatim>\<open>cap.release()\<close> is called. A successful \<^verbatim>\<open>cv2.imwrite\<close> creates the file.
\<close>

definition save_photo ::
  "camera \<Rightarrow> string \<Rightarrow> settings option \<Rightarrow> bool \<Rightarrow> 'r state \<Rightarrow> (exn + bool) \<times> 'r state" where
  "save_photo cam save_path st with_datetime s =
     (let s1 = emit (VideoCapture (device_id cam)) s in
      case fourcc_setting st of
        Inl e \<Rightarrow> (Inl e, s1)
      | Inr evs \<Rightarrow>
         (let s2 = emits (evs @ size_settings st @ profile_settings st) s1 in
          if \<not> isOpened cam then (Inr False, s2)
          else
            (let s3 = emit CapRead (emit (Sleep 2) s2) in
             if \<not> read_result cam then (Inr False, s3)
             else
               (let s4 = (if with_datetime then emit PutText s3 else s3);
                    save_dir = dirname save_path;
                    s5 = (if save_dir \<noteq> [] then emit (Makedirs save_dir) s4 else s4);
                    s6 = emit (Imwrite save_path) s5;
                    s7 = (if imwrite_result cam
                          then s6\<lparr>files := insert save_path (files s6)\<rparr> else s6);
                    s8 = emit DestroyAllWindows (emit CapRelease s7)
                in (Inr (imwrite_result cam), s8)))))"

section \<open>\<^verbatim>\<open>google_photos.py\<close>\<close>

definition MAX_API_RETRY :: nat where
  "MAX_API_RETRY = 3"

text \<open>Python's substring test \<^verbatim>\<open>needle in haystack\<close> on strings.\<close>

fun py_in :: "string \<Rightarrow> string \<Rightarrow> bool" where
  "py_in needle [] = (needle = [])"
| "py_in needle (c # cs) = (take (length needle) (c # cs) = needle \<or> py_in needle cs)"

text \<open>
  The marker test of \<^verbatim>\<open>_execute_api\<close>:
  \<^verbatim>\<open>"invalid_grant" in error_str or "expired" in error_str or "revoked" in error_str\<close>.
\<close>

definition is_auth_error :: "string \<Rightarrow> bool" where
  "is_auth_error error_str =
     (py_in ''invalid_grant'' error_str \<or> py_in ''expired'' error_str
      \<or> py_in ''revoked'' error_str)"

text \<open>
  The data of the remote photo library as the client reads it. An album carries the two
  keys the client subscripts, \<^verbatim>\<open>id\<close> and \<^verbatim>\<open>title\<close>. In a response, a field is \<open>None\<close>
  when the key is absent from the dictionary.
\<close>

record album =
  album_id :: string
  title :: string

record list_response =
  albums :: "album list option"
  nextPageToken :: "string option"

record create_response =
  created_id :: "string option"
  created_title :: "string option"

record post_response =
  status_code :: int
  content :: string

record media_item_result =
  status :: "string option"

record batch_response =
  newMediaItemResults :: "media_item_result list option"

text \<open>
  The collaborators outside the repository, each a function on the remote state that
  either raises (\<open>Inl\<close>) or returns (\<open>Inr\<close>):
  \<^item> \<open>get_service\<close>: \<^verbatim>\<open>GooglePhotos._get_service\<close>, which loads, refreshes or obtains the
    credential and builds the service object;
  \<^item> \<open>albums_list page_token\<close>: \<^verbatim>\<open>albums().list(pageSize=50, pageToken=page_token).execute\<close>;
  \<^item> \<open>albums_create title\<close>: \<^verbatim>\<open>albums().create(body=album).execute\<close>;
  \<^item> \<open>requests_post image_path\<close>: \<^verbatim>\<open>requests.post\<close> of the opened file to the upload endpoint;
  \<^item> \<open>batch_create album_id upload_token\<close>: \<^verbatim>\<open>mediaItems().batchCreate(body=new_media).execute\<close>;
  \<^item> \<open>boto3_installed\<close>: whether \<^verbatim>\<open>import boto3\<close> succeeded;
  \<^item> \<open>sns_publish\<close>: \<^verbatim>\<open>boto3.client('sns', ...)\<close> and \<^verbatim>\<open>sns.publish(...)\<close>.
\<close>

record 'r env =
  get_service :: "'r \<Rightarrow> (exn + unit) \<times> 'r"
  albums_list :: "string option \<Rightarrow> 'r \<Rightarrow> (exn + list_response) \<times> 'r"
  albums_create :: "string \<Rightarrow> 'r \<Rightarrow> (exn + create_response) \<times> 'r"
  requests_post :: "string \<Rightarrow> 'r \<Rightarrow> (exn + post_response) \<times> 'r"
  batch_create :: "string option \<Rightarrow> string \<Rightarrow> 'r \<Rightarrow> (exn + batch_response) \<times> 'r"
  boto3_installed :: bool
  sns_publish :: "'r \<Rightarrow> (exn + unit) \<times> 'r"

definition call_get_service :: "'r env \<Rightarrow> 'r state \<Rightarrow> (exn + unit) \<times> 'r state" where
  "call_get_service ev s =
     (case get_service ev (remote s) of
        (res, r') \<Rightarrow> (res, emit GetService (s\<lparr>remote := r'\<rparr>)))"

text \<open>
  One invocation \<^verbatim>\<open>callback(*args, **kwargs)\<close>. The event records which remote method
  the callback is: \<open>name\<close> stands for \<^verbatim>\<open>callback.__name__\<close>, made precise by the
  resource the bound method belongs to.
\<close>

definition run_callback ::
  "string \<Rightarrow> ('r \<Rightarrow> (exn + 'a) \<times> 'r) \<Rightarrow> 'r state \<Rightarrow> (exn + 'a) \<times> 'r state" where
  "run_callback name callback s =
     (case callback (remote s) of
        (res, r') \<Rightarrow> (res, emit (Call name) (s\<lparr>remote := r'\<rparr>)))"

text \<open>
  \<^verbatim>\<open>GooglePhotos._execute_api\<close>: the loop \<^verbatim>\<open>for i in range(MAX_API_RETRY)\<close> as recursion on
  the list of the remaining indices; the empty list is the \<^verbatim>\<open>else\<close> branch of the loop,
  which returns \<^verbatim>\<open>None\<close>. A value \<open>v\<close> returned by the callback is \<open>Some v\<close>.
\<close>

fun execute_api_loop ::
  "string \<Rightarrow> ('r \<Rightarrow> (exn + 'a) \<times> 'r) \<Rightarrow> nat list \<Rightarrow> 'r state \<Rightarrow> (exn + 'a option) \<times> 'r state" where
  "execute_api_loop name callback [] s = (Inr None, s)"
| "execute_api_loop name callback (i # rest) s =
     (case run_callback name callback s of
        (Inr v, s') \<Rightarrow> (Inr (Some v), s')
      | (Inl e, s') \<Rightarrow>
          if is_auth_error (str e) then (Inl e, s')
          else execute_api_loop name callback rest
                 (if i < MAX_API_RETRY - 1 then emit (Sleep 3) s' else s'))"

definition execute_api ::
  "string \<Rightarrow> ('r \<Rightarrow> (exn + 'a) \<times> 'r) \<Rightarrow> 'r state \<Rightarrow> (exn + 'a option) \<times> 'r state" where
  "execute_api name callback s = execute_api_loop name callback [0..<MAX_API_RETRY] s"

text \<open>
  What Python raises when the \<^verbatim>\<open>None\<close> returned by \<^verbatim>\<open>_execute_api\<close> is used as a
  response: \<^verbatim>\<open>"k" not in None\<close> and \<^verbatim>\<open>None.status_code\<close>; and when a key or an index is
  missing.
\<close>

definition none_not_iterable :: exn where
  "none_not_iterable = Exn ''TypeError'' ''argument of type 'NoneType' is not iterable''"

definition none_no_status_code :: exn where
  "none_no_status_code =
     Exn ''AttributeError''
       ([CHR 0x27] @ ''NoneType' object has no attribute 'status_code'' @ [CHR 0x27])"

definition key_error :: "string \<Rightarrow> exn" where
  "key_error k = Exn ''KeyError'' ([CHR 0x27] @ k @ [CHR 0x27])"

definition index_error :: exn where
  "index_error = Exn ''IndexError'' ''list index out of range''"

text \<open>
  \<^verbatim>\<open>GooglePhotos.create_album\<close>. When the response has no \<^verbatim>\<open>id\<close> the source logs an
  error and goes on; the f-string of the next statement subscripts \<^verbatim>\<open>response['id']\<close>
  and \<^verbatim>\<open>response['title']\<close>, in this order.
\<close>

definition create_album :: "'r env \<Rightarrow> string \<Rightarrow> 'r state \<Rightarrow> (exn + string) \<times> 'r state" where
  "create_album ev album_title s =
     (case call_get_service ev s of
        (Inl e, s1) \<Rightarrow> (Inl e, s1)
      | (Inr u, s1) \<Rightarrow>
         (case execute_api ''albums.create'' (albums_create ev album_title) s1 of
            (Inl e, s2) \<Rightarrow> (Inl e, s2)
          | (Inr None, s2) \<Rightarrow> (Inl none_not_iterable, s2)
          | (Inr (Some response), s2) \<Rightarrow>
             (case created_id response of
                None \<Rightarrow> (Inl (key_error ''id''), s2)
              | Some new_id \<Rightarrow>
                 (case created_title response of
                    None \<Rightarrow> (Inl (key_error ''title''), s2)
                  | Some t \<Rightarrow> (Inr new_id, s2)))))"

text \<open>
  \<^verbatim>\<open>GooglePhotos.get_album_list\<close>. The loop \<^verbatim>\<open>while True\<close> has no bound of its own: it
  ends when a response has no \<^verbatim>\<open>albums\<close> key or no \<^verbatim>\<open>nextPageToken\<close> key, or by an
  exception. A run that never ends has the value \<open>None\<close>.
\<close>

partial_function (option) get_album_list_loop ::
  "'r env \<Rightarrow> string option \<Rightarrow> album list \<Rightarrow> 'r state
    \<Rightarrow> ((exn + album list) \<times> 'r state) option" where
  "get_album_list_loop ev page_token album_list s =
     (case call_get_service ev s of
        (Inl e, s1) \<Rightarrow> Some (Inl e, s1)
      | (Inr u, s1) \<Rightarrow>
         (case execute_api ''albums.list'' (albums_list ev page_token) s1 of
            (Inl e, s2) \<Rightarrow> Some (Inl e, s2)
          | (Inr None, s2) \<Rightarrow> Some (Inl none_not_iterable, s2)
          | (Inr (Some response), s2) \<Rightarrow>
             (case albums response of
                None \<Rightarrow> Some (Inr album_list, s2)
              | Some page \<Rightarrow>
                 (case nextPageToken response of
                    None \<Rightarrow> Some (Inr (album_list @ page), s2)
                  | Some next_token \<Rightarrow>
                      get_album_list_loop ev (Some next_token) (album_list @ page) s2))))"

declare get_album_list_loop.simps [code]

definition get_album_list ::
  "'r env \<Rightarrow> 'r state \<Rightarrow> ((exn + album list) \<times> 'r state) option" where
  "get_album_list ev s = get_album_list_loop ev None [] s"

text \<open>\<^verbatim>\<open>GooglePhotos.get_album\<close>: the first album of the listing with the given title.\<close>

definition get_album ::
  "'r env \<Rightarrow> string \<Rightarrow> 'r state \<Rightarrow> ((exn + album option) \<times> 'r state) option" where
  "get_album ev album_title s =
     (case get_album_list ev s of
        None \<Rightarrow> None
      | Some (Inl e, s1) \<Rightarrow> Some (Inl e, s1)
      | Some (Inr album_list, s1) \<Rightarrow>
          Some (Inr (find (\<lambda>album. album_title = title album) album_list), s1))"

text \<open>
  \<^verbatim>\<open>GooglePhotos.upload_image\<close>. \<^verbatim>\<open>os.path.isfile(image_path)\<close> is membership in the set
  of files; \<^verbatim>\<open>requests.codes.ok\<close> is 200; the upload token is the content of the first
  response.
\<close>

definition upload_image ::
  "'r env \<Rightarrow> string option \<Rightarrow> string \<Rightarrow> 'r state \<Rightarrow> (exn + bool) \<times> 'r state" where
  "upload_image ev album image_path s =
     (if image_path \<notin> files s then (Inr False, s)
      else
        (case call_get_service ev s of
           (Inl e, s1) \<Rightarrow> (Inl e, s1)
         | (Inr u, s1) \<Rightarrow>
            (case execute_api ''requests.post'' (requests_post ev image_path) s1 of
               (Inl e, s2) \<Rightarrow> (Inl e, s2)
             | (Inr None, s2) \<Rightarrow> (Inl none_no_status_code, s2)
             | (Inr (Some response), s2) \<Rightarrow>
                if status_code response \<noteq> 200 then (Inr False, s2)
                else
                  (case call_get_service ev s2 of
                     (Inl e, s3) \<Rightarrow> (Inl e, s3)
                   | (Inr u, s3) \<Rightarrow>
                      (case execute_api ''mediaItems.batchCreate''
                              (batch_create ev album (content response)) s3 of
                         (Inl e, s4) \<Rightarrow> (Inl e, s4)
                       | (Inr None, s4) \<Rightarrow> (Inl none_not_iterable, s4)
                       | (Inr (Some created), s4) \<Rightarrow>
                          (case newMediaItemResults created of
                             None \<Rightarrow> (Inr False, s4)
                           | Some [] \<Rightarrow> (Inl index_error, s4)
                           | Some (item # items) \<Rightarrow>
                              (case status item of
                                 None \<Rightarrow> (Inl (key_error ''status''), s4)
                               | Some st \<Rightarrow> (Inr True, s4))))))))"

section \<open>\<^verbatim>\<open>main.py\<close>\<close>

text \<open>
  The configuration as the scheduler reads it. \<open>notifications\<close> is \<open>None\<close> when the
  configuration has no \<^verbatim>\<open>notifications\<close> section, and otherwise holds
  \<^verbatim>\<open>config["notifications"]["aws_sns"]["use"]\<close>.
\<close>

record config =
  camera_use :: bool
  photo_dir :: string
  camera_settings :: "settings option"
  google_photos_use :: bool
  album_title :: string
  notifications :: "bool option"

text \<open>\<^verbatim>\<open>os.remove(path)\<close>: removes an existing file, raises otherwise.\<close>

definition os_remove :: "string \<Rightarrow> 'r state \<Rightarrow> (exn + unit) \<times> 'r state" where
  "os_remove path s =
     (if path \<in> files s
      then (Inr (), emit (OsRemove path) (s\<lparr>files := files s - {path}\<rparr>))
      else (Inl (Exn ''FileNotFoundError''
                  (''[Errno 2] No such file or directory: '' @ [CHR 0x27] @ path @ [CHR 0x27])),
            s))"

text \<open>\<^verbatim>\<open>Scheduler._get_album_id\<close>.\<close>

definition get_album_id ::
  "config \<Rightarrow> 'r env \<Rightarrow> 'r state \<Rightarrow> ((exn + string option) \<times> 'r state) option" where
  "get_album_id cfg ev s =
     (if \<not> google_photos_use cfg then Some (Inr None, s)
      else
        (case get_album ev (album_title cfg) s of
           None \<Rightarrow> None
         | Some (Inl e, s1) \<Rightarrow> Some (Inl e, s1)
         | Some (Inr (Some found), s1) \<Rightarrow> Some (Inr (Some (album_id found)), s1)
         | Some (Inr None, s1) \<Rightarrow>
            (case create_album ev (album_title cfg) s1 of
               (Inl e, s2) \<Rightarrow> Some (Inl e, s2)
             | (Inr new_id, s2) \<Rightarrow> Some (Inr (Some new_id), s2))))"

text \<open>
  \<^verbatim>\<open>Scheduler._send_auth_error_notification\<close>. Every path that reads the flag ends in
  \<^verbatim>\<open>sys.exit(1)\<close>; an exception of the publication is caught and logged before.
\<close>

definition send_auth_error_notification ::
  "config \<Rightarrow> 'r env \<Rightarrow> 'r state \<Rightarrow> unit outcome \<times> 'r state" where
  "send_auth_error_notification cfg ev s =
     (case notifications cfg of
        None \<Rightarrow> (Raised (key_error ''notifications''), s)
      | Some use \<Rightarrow>
          if \<not> use then (Exited 1, s)
          else if \<not> boto3_installed ev then (Exited 1, s)
          else
            (case sns_publish ev (remote s) of
               (res, r') \<Rightarrow> (Exited 1, emit SnsPublish (s\<lparr>remote := r'\<rparr>))))"

text \<open>
  The body of the \<^verbatim>\<open>try\<close> statement of \<^verbatim>\<open>camera_job\<close>, in two parts: the upload
  step (resolve the album, upload the image), and then the removal of the local file.
\<close>

definition upload_step ::
  "config \<Rightarrow> 'r env \<Rightarrow> string \<Rightarrow> 'r state \<Rightarrow> ((exn + bool) \<times> 'r state) option" where
  "upload_step cfg ev photo_image_path s =
     (case get_album_id cfg ev s of
        None \<Rightarrow> None
      | Some (Inl e, s1) \<Rightarrow> Some (Inl e, s1)
      | Some (Inr album, s1) \<Rightarrow> Some (upload_image ev album photo_image_path s1))"

definition upload_and_remove ::
  "config \<Rightarrow> 'r env \<Rightarrow> string \<Rightarrow> 'r state \<Rightarrow> ((exn + unit) \<times> 'r state) option" where
  "upload_and_remove cfg ev photo_image_path s =
     (case upload_step cfg ev photo_image_path s of
        None \<Rightarrow> None
      | Some (Inl e, s2) \<Rightarrow> Some (Inl e, s2)
      | Some (Inr uploaded, s2) \<Rightarrow> Some (os_remove photo_image_path s2))"

text \<open>
  The \<^verbatim>\<open>except Exception as e\<close> clause of \<^verbatim>\<open>camera_job\<close>. Its marker test is
  \<^verbatim>\<open>"invalid_grant" in str(e) or "expired" in str(e)\<close>.
\<close>

definition handle_upload_error ::
  "config \<Rightarrow> 'r env \<Rightarrow> string \<Rightarrow> exn \<Rightarrow> 'r state \<Rightarrow> unit outcome \<times> 'r state" where
  "handle_upload_error cfg ev photo_image_path e s =
     (if py_in ''invalid_grant'' (str e) \<or> py_in ''expired'' (str e)
      then
        (case send_auth_error_notification cfg ev s of
           (Returned u, s1) \<Rightarrow> (Exited 1, s1)
         | (Raised e1, s1) \<Rightarrow> (Raised e1, s1)
         | (Exited code, s1) \<Rightarrow> (Exited code, s1))
      else
        (case os_remove photo_image_path s of
           (Inl e1, s1) \<Rightarrow> (Raised e1, s1)
         | (Inr u, s1) \<Rightarrow> (Returned (), s1)))"

text \<open>
  \<^verbatim>\<open>Scheduler.camera_job\<close>; \<open>now\<close> is
  \<^verbatim>\<open>datetime.now().strftime("%Y%m%d_%H%M")\<close>. \<^verbatim>\<open>save_photo\<close> is called with its default
  \<^verbatim>\<open>with_datetime=True\<close>.
\<close>

definition camera_job ::
  "config \<Rightarrow> camera \<Rightarrow> 'r env \<Rightarrow> string \<Rightarrow> 'r state \<Rightarrow> (unit outcome \<times> 'r state) option" where
  "camera_job cfg cam ev now s =
     (if \<not> camera_use cfg then Some (Returned (), s)
      else
        (let photo_image_path = photo_dir cfg @ ''/camera_'' @ now @ ''.jpg'' in
         case save_photo cam photo_image_path (camera_settings cfg) True s of
           (Inl e, s1) \<Rightarrow> Some (Raised e, s1)
         | (Inr result, s1) \<Rightarrow>
            if \<not> result \<or> \<not> google_photos_use cfg then Some (Returned (), s1)
            else
              (case upload_and_remove cfg ev photo_image_path s1 of
                 None \<Rightarrow> None
               | Some (Inr u, s2) \<Rightarrow> Some (Returned (), s2)
               | Some (Inl e, s2) \<Rightarrow> Some (handle_upload_error cfg ev photo_image_path e s2))))"

section \<open>Observations used in the statements\<close>




section \<open>Example environments\<close>

text \<open>
  Concrete collaborators on which the properties below are evaluated. The remote state
  of the first two is the number of calls made so far.

  A callback that times out once and then fails with the error of a rejected refresh
  token; a callback that times out twice and then returns.
\<close>

definition timeout_error :: exn where
  "timeout_error = Exn ''TimeoutError'' ''The read operation timed out''"

definition refresh_error :: exn where
  "refresh_error =
     Exn ''RefreshError'' ''invalid_grant: Token has been expired or revoked.''"

definition timeout_then_refresh_error :: "nat \<Rightarrow> (exn + nat) \<times> nat" where
  "timeout_then_refresh_error r =
     (if r = 0 then (Inl timeout_error, Suc r) else (Inl refresh_error, Suc r))"

definition timeout_twice :: "nat \<Rightarrow> (exn + nat) \<times> nat" where
  "timeout_twice r = (if r < 2 then (Inl timeout_error, Suc r) else (Inr r, Suc r))"

text \<open>
  A photo library whose remote state is its list of albums: a listing returns all of them
  in one page (and no \<^verbatim>\<open>albums\<close> field when there are none), a creation appends an album
  with a fresh id, uploads succeed. Variants of it: every request to the library times
  out; the upload endpoint answers 503; the credential is rejected with a message that
  contains \<^verbatim>\<open>revoked\<close> only; a listing of three pages of 50, 50 and 10 albums.
\<close>

definition library_env :: "album list env" where
  "library_env =
     \<lparr>get_service = (\<lambda>r. (Inr (), r)),
      albums_list = (\<lambda>page_token r.
         (Inr \<lparr>albums = (if r = [] then None else Some r), nextPageToken = None\<rparr>, r)),
      albums_create = (\<lambda>t r.
         (Inr \<lparr>created_id = Some (''album-'' @ replicate (length r) CHR ''i''),
               created_title = Some t\<rparr>,
          r @ [\<lparr>album_id = ''album-'' @ replicate (length r) CHR ''i'', title = t\<rparr>])),
      requests_post = (\<lambda>image_path r. (Inr \<lparr>status_code = 200, content = ''upload-token''\<rparr>, r)),
      batch_create = (\<lambda>album upload_token r.
         (Inr \<lparr>newMediaItemResults = Some [\<lparr>status = Some ''Success''\<rparr>]\<rparr>, r)),
      boto3_installed = True,
      sns_publish = (\<lambda>r. (Inr (), r))\<rparr>"

definition unreachable_env :: "album list env" where
  "unreachable_env =
     library_env
       \<lparr>albums_list := (\<lambda>page_token r. (Inl timeout_error, r)),
        albums_create := (\<lambda>t r. (Inl timeout_error, r)),
        requests_post := (\<lambda>image_path r. (Inl timeout_error, r))\<rparr>"

definition busy_env :: "album list env" where
  "busy_env =
     library_env
       \<lparr>requests_post := (\<lambda>image_path r. (Inr \<lparr>status_code = 503, content = ''''\<rparr>, r))\<rparr>"

definition revoked_error :: exn where
  "revoked_error = Exn ''RefreshError'' ''Token has been revoked''"

definition revoked_env :: "album list env" where
  "revoked_env =
     library_env\<lparr>get_service := (\<lambda>r. (Inl revoked_error, r))\<rparr>"

definition garden :: album where
  "garden = \<lparr>album_id = ''album-'', title = ''Garden''\<rparr>"



text \<open>A configuration, two cameras, and the trace of a capture that succeeds.\<close>

definition photo_config :: config where
  "photo_config =
     \<lparr>camera_use = True, photo_dir = ''photos'', camera_settings = None,
      google_photos_use = True, album_title = ''Garden'', notifications = Some True\<rparr>"

definition working_camera :: camera where
  "working_camera = \<lparr>device_id = DEVICE_ID, isOpened = True, read_result = True, imwrite_result = True\<rparr>"

definition no_frame_camera :: camera where
  "no_frame_camera = working_camera\<lparr>read_result := False\<rparr>"

definition capture_trace :: "event list" where
  "capture_trace =
     [VideoCapture 0, CapSet CAP_PROP_FOURCC 1196444237,
      CapSet CAP_PROP_BRIGHTNESS 128, CapSet CAP_PROP_CONTRAST 32,
      CapSet CAP_PROP_SATURATION 32, CapSet CAP_PROP_AUTO_EXPOSURE 3,
      Sleep 2, CapRead, PutText, Makedirs ''photos'',
      Imwrite ''photos/camera_20240101_1200.jpg'', CapRelease, DestroyAllWindows]"

section \<open>Properties of \<^verbatim>\<open>camera_module.py\<close>\<close>

lemma fourcc_byte_eq: "drop_bit (8 * i) v AND 255 = (v div 256 ^ i) mod (256::int)"
proof -
  have "drop_bit (8 * i) v AND 255 = take_bit 8 (drop_bit (8 * i) v)"
    by (simp add: take_bit_eq_mask mask_eq_exp_minus_1)
  also have "\<dots> = (v div 256 ^ i) mod 256"
    by (simp add: take_bit_eq_mod drop_bit_eq_div power_mult)
  finally show ?thesis .
qed

lemma decode_fourcc_length: "length (decode_fourcc v) = 4"
  by (simp add: decode_fourcc_def)

lemma decode_fourcc_nth:
  assumes "i < 4"
  shows "of_char (decode_fourcc v ! i) = (v div 256 ^ i) mod 256"
proof -
  have "decode_fourcc v ! i = char_of (drop_bit (8 * i) v AND 255)"
    using assms unfolding decode_fourcc_def by (simp add: nth_map del: upt_Suc)
  then show ?thesis
    by (simp add: fourcc_byte_eq)
qed

lemma of_char_shift_div: "(of_char c + 256 * x) div 256 = (x::int)"
proof -
  have "(of_char c :: int) div 256 = 0"
    by (metis of_char_mod_256 mod_div_trivial)
  then show ?thesis by simp
qed

lemma pack_fourcc_byte:
  "i < length s \<Longrightarrow> (pack_fourcc s div 256 ^ i) mod 256 = of_char (s ! i)"
proof (induction s arbitrary: i)
  case Nil
  then show ?case by simp
next
  case (Cons c s)
  have unfold: "pack_fourcc (c # s) = of_char c + 256 * pack_fourcc s"
    by (simp add: pack_fourcc_def)
  show ?case
  proof (cases i)
    case 0
    then show ?thesis by (simp add: unfold)
  next
    case (Suc j)
    with Cons.prems have "j < length s" by simp
    then have "(pack_fourcc s div 256 ^ j) mod 256 = of_char (s ! j)"
      by (rule Cons.IH)
    moreover have "pack_fourcc (c # s) div 256 ^ Suc j = pack_fourcc s div 256 ^ j"
      by (simp add: unfold zdiv_zmult2_eq of_char_shift_div)
    ultimately show ?thesis using Suc by simp
  qed
qed

lemma decode_pack_fourcc:
  assumes "length s = 4"
  shows "decode_fourcc (pack_fourcc s) = s"
proof (rule nth_equalityI)
  show "length (decode_fourcc (pack_fourcc s)) = length s"
    using assms by (simp add: decode_fourcc_def)
next
  fix i assume "i < length (decode_fourcc (pack_fourcc s))"
  then have i: "i < 4" by (simp add: decode_fourcc_def)
  have "of_char (decode_fourcc (pack_fourcc s) ! i) = (of_char (s ! i) :: int)"
    using assms i by (simp add: decode_fourcc_nth pack_fourcc_byte)
  then show "decode_fourcc (pack_fourcc s) ! i = s ! i"
    by (rule of_char_eqI)
qed

text \<open>
  Claim C10. For every integer \<open>v\<close> (in particular every 32-bit one), \<open>decode_fourcc v\<close>
  is a string of exactly four characters, and the character at position \<open>i\<close>, for
  \<open>i\<close> from 0 to 3, has as its code the \<open>i\<close>-th least significant byte of \<open>v\<close>, that is
  \<open>v div 256 ^ i mod 256\<close>. Consequently, decoding the little-endian packing of any string
  of four characters gives that string back, and so does decoding
  \<^verbatim>\<open>VideoWriter_fourcc\<close> of four characters.
\<close>

theorem decode_fourcc_bytes_roundtrip:
  "length (decode_fourcc v) = 4
   \<and> (\<forall>i<4. of_char (decode_fourcc v ! i) = (v div 256 ^ i) mod 256)
   \<and> (\<forall>s. length s = 4 \<longrightarrow> decode_fourcc (pack_fourcc s) = s)
   \<and> decode_fourcc (VideoWriter_fourcc c1 c2 c3 c4) = [c1, c2, c3, c4]"
proof (intro conjI allI impI)
  show "length (decode_fourcc v) = 4"
    by (rule decode_fourcc_length)
next
  fix i :: nat assume "i < 4"
  then show "of_char (decode_fourcc v ! i) = (v div 256 ^ i) mod 256"
    by (rule decode_fourcc_nth)
next
  fix s :: string assume "length s = 4"
  then show "decode_fourcc (pack_fourcc s) = s"
    by (rule decode_pack_fourcc)
next
  show "decode_fourcc (VideoWriter_fourcc c1 c2 c3 c4) = [c1, c2, c3, c4]"
    unfolding VideoWriter_fourcc_def by (rule decode_pack_fourcc) simp
qed

theorem decode_fourcc_bytes_roundtrip_witness:
  "decode_fourcc 1196444237 = ''MJPG''
   \<and> 2 < (4::nat)
   \<and> of_char (decode_fourcc 1196444237 ! 2) = (1196444237 div 256 ^ 2) mod (256::int)
   \<and> length ''YUYV'' = 4
   \<and> decode_fourcc (pack_fourcc ''YUYV'') = ''YUYV''"
proof -
  have v: "VideoWriter_fourcc CHR ''M'' CHR ''J'' CHR ''P'' CHR ''G'' = 1196444237"
    by (simp add: VideoWriter_fourcc_def pack_fourcc_def)
  have len: "length ''YUYV'' = 4" by simp
  from decode_fourcc_bytes_roundtrip
    [of 1196444237 "CHR ''M''" "CHR ''J''" "CHR ''P''" "CHR ''G''"]
  show ?thesis using v len by simp
qed

section \<open>Properties of the retry wrapper\<close>

lemma range_MAX_API_RETRY: "[0..<MAX_API_RETRY] = [0, 1, 2]"
  by (simp add: MAX_API_RETRY_def upt_rec)

lemma execute_api_unfold:
  "execute_api name callback s = execute_api_loop name callback [0, 1, 2] s"
  by (simp only: execute_api_def range_MAX_API_RETRY)

lemma run_callback_trace:
  "run_callback name callback s = (res, s') \<Longrightarrow> trace s' = trace s @ [Call name]"
  by (auto simp: run_callback_def emit_def split: prod.splits)

text \<open>
  Whatever the callback does, a run of the loop only appends to the trace, what it
  appends are calls of the callback and sleeps of 3 seconds, and there are at most as many
  calls as indices left.
\<close>

lemma execute_api_loop_trace:
  "execute_api_loop name callback idx s = (res, s') \<Longrightarrow>
     \<exists>tr. trace s' = trace s @ tr
        \<and> list_all (\<lambda>ev. ev = Call name \<or> ev = Sleep 3) tr
        \<and> length (filter (\<lambda>ev. ev = Call name) tr) \<le> length idx"
proof (induction idx arbitrary: s)
  case Nil
  then show ?case by simp
next
  case (Cons i rest)
  obtain r s1 where rc: "run_callback name callback s = (r, s1)"
    by (cases "run_callback name callback s")
  then have t1: "trace s1 = trace s @ [Call name]"
    by (rule run_callback_trace)
  show ?case
  proof (cases r)
    case (Inr v)
    with Cons.prems rc t1 show ?thesis by auto
  next
    case (Inl e)
    show ?thesis
    proof (cases "is_auth_error (str e)")
      case True
      with Cons.prems rc t1 Inl show ?thesis by auto
    next
      case False
      let ?s2 = "if i < MAX_API_RETRY - 1 then emit (Sleep 3) s1 else s1"
      from Cons.prems rc Inl False
      have "execute_api_loop name callback rest ?s2 = (res, s')" by simp
      from Cons.IH[OF this] obtain tr where tr:
        "trace s' = trace ?s2 @ tr"
        "list_all (\<lambda>ev. ev = Call name \<or> ev = Sleep 3) tr"
        "length (filter (\<lambda>ev. ev = Call name) tr) \<le> length rest"
        by blast
      show ?thesis
      proof (cases "i < MAX_API_RETRY - 1")
        case True
        with tr t1 have "trace s' = trace s @ (Call name # Sleep 3 # tr)"
          by (simp add: emit_def)
        with tr show ?thesis
          by (intro exI[of _ "Call name # Sleep 3 # tr"]) auto
      next
        case False
        with tr t1 have "trace s' = trace s @ (Call name # tr)"
          by (simp add: emit_def)
        with tr show ?thesis
          by (intro exI[of _ "Call name # tr"]) auto
      qed
    qed
  qed
qed

text \<open>\<open>py_in\<close> is the substring test: the needle occurs somewhere in the haystack.\<close>

lemma py_in_iff: "py_in needle hay \<longleftrightarrow> (\<exists>pre post. hay = pre @ needle @ post)"
proof (induction hay)
  case Nil
  then show ?case by auto
next
  case (Cons c cs)
  show ?case
  proof
    assume "py_in needle (c # cs)"
    then consider "take (length needle) (c # cs) = needle" | "py_in needle cs" by auto
    then show "\<exists>pre post. c # cs = pre @ needle @ post"
    proof cases
      case 1
      then have "c # cs = [] @ needle @ drop (length needle) (c # cs)"
        by (metis append_Nil append_take_drop_id)
      then show ?thesis by blast
    next
      case 2
      with Cons.IH obtain pre post where "cs = pre @ needle @ post" by blast
      then have "c # cs = (c # pre) @ needle @ post" by simp
      then show ?thesis by blast
    qed
  next
    assume "\<exists>pre post. c # cs = pre @ needle @ post"
    then obtain pre post where eq: "c # cs = pre @ needle @ post" by blast
    show "py_in needle (c # cs)"
    proof (cases pre)
      case Nil
      with eq have "take (length needle) (c # cs) = needle" by simp
      then show ?thesis by simp
    next
      case (Cons p pre')
      with eq have "cs = pre' @ needle @ post" by simp
      with Cons.IH have "py_in needle cs" by blast
      then show ?thesis by simp
    qed
  qed
qed

lemma timeout_not_auth_error: "\<not> is_auth_error (str timeout_error)"
  by code_simp

lemma refresh_error_auth_error: "is_auth_error (str refresh_error)"
  by code_simp

text \<open>
  Claim C2. An exception raised by the callback whose message contains
  \<^verbatim>\<open>invalid_grant\<close>, \<^verbatim>\<open>expired\<close> or \<^verbatim>\<open>revoked\<close> is re-raised by \<^verbatim>\<open>_execute_api\<close> the
  first time it occurs, be it on the first, the second or the third attempt (earlier
  attempts having failed with other errors). The final state is the one the raising call
  left, and the trace ends with that call: no attempt follows it and no sleep follows it.
\<close>

theorem execute_api_reraises_auth_error:
  assumes auth: "is_auth_error (str e)"
  shows "(callback (remote s) = (Inl e, r1) \<longrightarrow>
            execute_api name callback s
              = (Inl e, s\<lparr>remote := r1, trace := trace s @ [Call name]\<rparr>))
       \<and> (callback (remote s) = (Inl e1, r1) \<and> \<not> is_auth_error (str e1)
            \<and> callback r1 = (Inl e, r2) \<longrightarrow>
            execute_api name callback s
              = (Inl e, s\<lparr>remote := r2, trace := trace s @ [Call name, Sleep 3, Call name]\<rparr>))
       \<and> (callback (remote s) = (Inl e1, r1) \<and> \<not> is_auth_error (str e1)
            \<and> callback r1 = (Inl e2, r2) \<and> \<not> is_auth_error (str e2)
            \<and> callback r2 = (Inl e, r3) \<longrightarrow>
            execute_api name callback s
              = (Inl e, s\<lparr>remote := r3,
                   trace := trace s @ [Call name, Sleep 3, Call name, Sleep 3, Call name]\<rparr>))"
  using auth
  by (simp add: execute_api_unfold run_callback_def emit_def MAX_API_RETRY_def)

theorem execute_api_reraises_auth_error_witness:
  "is_auth_error (str refresh_error)
   \<and> \<not> is_auth_error (str timeout_error)
   \<and> execute_api ''albums.list'' timeout_then_refresh_error
         \<lparr>remote = 0, files = {}, trace = []\<rparr>
       = (Inl refresh_error,
          \<lparr>remote = 2, files = {},
           trace = [Call ''albums.list'', Sleep 3, Call ''albums.list'']\<rparr>)"
  using execute_api_reraises_auth_error
          [where e = refresh_error and ?e1.0 = timeout_error
             and callback = timeout_then_refresh_error
             and s = "\<lparr>remote = 0, files = {}, trace = []\<rparr>"
             and ?r1.0 = 1 and ?r2.0 = 2 and name = "''albums.list''"]
        timeout_not_auth_error refresh_error_auth_error
  by (simp add: timeout_then_refresh_error_def)

text \<open>
  Claim C5. \<^verbatim>\<open>_execute_api\<close> calls the callback at most 3 times. The first attempt that
  returns ends the run with its value, with no attempt after it. After an attempt that
  fails with an error that is not an authentication error, and that is not the last one,
  the wrapper sleeps 3 seconds and tries again. After three such failures it returns
  \<^verbatim>\<open>None\<close> and raises nothing, and it does not sleep after the third. In particular two
  failures followed by a success give that success.
\<close>

theorem execute_api_retry_policy:
  "(\<exists>tr. trace (snd (execute_api name callback s)) = trace s @ tr
          \<and> length (filter (\<lambda>ev. ev = Call name) tr) \<le> 3)
   \<and> (callback (remote s) = (Inr v, r1) \<longrightarrow>
         execute_api name callback s
           = (Inr (Some v), s\<lparr>remote := r1, trace := trace s @ [Call name]\<rparr>))
   \<and> (callback (remote s) = (Inl e1, r1) \<and> \<not> is_auth_error (str e1)
         \<and> callback r1 = (Inr v, r2) \<longrightarrow>
         execute_api name callback s
           = (Inr (Some v),
              s\<lparr>remote := r2, trace := trace s @ [Call name, Sleep 3, Call name]\<rparr>))
   \<and> (callback (remote s) = (Inl e1, r1) \<and> \<not> is_auth_error (str e1)
         \<and> callback r1 = (Inl e2, r2) \<and> \<not> is_auth_error (str e2)
         \<and> callback r2 = (Inr v, r3) \<longrightarrow>
         execute_api name callback s
           = (Inr (Some v), s\<lparr>remote := r3,
                trace := trace s @ [Call name, Sleep 3, Call name, Sleep 3, Call name]\<rparr>))
   \<and> (callback (remote s) = (Inl e1, r1) \<and> \<not> is_auth_error (str e1)
         \<and> callback r1 = (Inl e2, r2) \<and> \<not> is_auth_error (str e2)
         \<and> callback r2 = (Inl e3, r3) \<and> \<not> is_auth_error (str e3) \<longrightarrow>
         execute_api name callback s
           = (Inr None, s\<lparr>remote := r3,
                trace := trace s @ [Call name, Sleep 3, Call name, Sleep 3, Call name]\<rparr>))"
proof (intro conjI impI)
  obtain res s' where r: "execute_api name callback s = (res, s')"
    by (cases "execute_api name callback s")
  then have "execute_api_loop name callback [0, 1, 2] s = (res, s')"
    by (simp add: execute_api_unfold)
  from execute_api_loop_trace[OF this] r
  show "\<exists>tr. trace (snd (execute_api name callback s)) = trace s @ tr
          \<and> length (filter (\<lambda>ev. ev = Call name) tr) \<le> 3"
    by auto
qed (simp_all add: execute_api_unfold run_callback_def emit_def MAX_API_RETRY_def)

theorem execute_api_retry_policy_witness:
  "\<not> is_auth_error (str timeout_error)
   \<and> execute_api ''requests.post'' timeout_twice \<lparr>remote = 0, files = {}, trace = []\<rparr>
       = (Inr (Some 2),
          \<lparr>remote = 3, files = {},
           trace = [Call ''requests.post'', Sleep 3, Call ''requests.post'', Sleep 3,
                    Call ''requests.post'']\<rparr>)"
  using execute_api_retry_policy
          [where ?e1.0 = timeout_error and ?e2.0 = timeout_error
             and callback = timeout_twice
             and s = "\<lparr>remote = 0, files = {}, trace = []\<rparr>"
             and ?r1.0 = 1 and ?r2.0 = 2 and ?r3.0 = 3 and v = 2
             and name = "''requests.post''"]
        timeout_not_auth_error
  by (simp add: timeout_twice_def)

section \<open>The device handle\<close>

lemma settings_events_no_release:
  "fourcc_setting st = Inr evs \<Longrightarrow>
     CapRelease \<notin> set (evs @ size_settings st @ profile_settings st)"
  by (auto simp: fourcc_setting_def size_settings_def profile_settings_def number_setting_def
           split: option.splits list.splits if_splits)

lemma save_photo_early_return_no_release:
  assumes "\<not> isOpened cam \<or> \<not> read_result cam"
    and "CapRelease \<notin> set (trace s)"
  shows "CapRelease \<notin> set (trace (snd (save_photo cam save_path st with_datetime s)))"
proof (cases "fourcc_setting st")
  case (Inl e)
  with assms show ?thesis by (simp add: save_photo_def emit_def)
next
  case (Inr evs)
  from settings_events_no_release[OF this] assms Inr show ?thesis
    by (auto simp: save_photo_def emit_def emits_def Let_def)
qed

lemma save_photo_written_releases:
  assumes "save_photo cam save_path st with_datetime s = (Inr True, s')"
  shows "\<exists>tr. trace s' = trace s @ tr @ [CapRelease, DestroyAllWindows] \<and> save_path \<in> files s'"
  using assms
  by (auto simp: save_photo_def emit_def emits_def Let_def split: sum.splits if_splits)

text \<open>
  Claim C3, evaluated on the code. The device opens and \<^verbatim>\<open>cap.read()\<close> returns no frame:
  \<^verbatim>\<open>save_photo\<close> returns \<^verbatim>\<open>False\<close> right after the read. The trace of the call holds the
  acquisition of the handle and no \<^verbatim>\<open>cap.release()\<close>; only the path that reaches
  \<^verbatim>\<open>cv2.imwrite\<close> releases the handle.
\<close>

theorem save_photo_no_frame_keeps_handle:
  "save_photo no_frame_camera ''photos/camera_20240101_1200.jpg'' None True
       \<lparr>remote = (), files = {}, trace = []\<rparr>
     = (Inr False,
        \<lparr>remote = (), files = {},
         trace = [VideoCapture 0, CapSet CAP_PROP_FOURCC 1196444237,
                  CapSet CAP_PROP_BRIGHTNESS 128, CapSet CAP_PROP_CONTRAST 32,
                  CapSet CAP_PROP_SATURATION 32, CapSet CAP_PROP_AUTO_EXPOSURE 3,
                  Sleep 2, CapRead]\<rparr>)"
  by code_simp

theorem save_photo_no_frame_keeps_handle_witness:
  "VideoCapture 0 \<in> set (trace (snd (save_photo no_frame_camera
       ''photos/camera_20240101_1200.jpg'' None True
       \<lparr>remote = (), files = {}, trace = []\<rparr>)))
   \<and> CapRelease \<notin> set (trace (snd (save_photo no_frame_camera
       ''photos/camera_20240101_1200.jpg'' None True
       \<lparr>remote = (), files = {}, trace = []\<rparr>)))"
  using save_photo_no_frame_keeps_handle by simp

section \<open>Properties of the client operations\<close>

lemma call_get_service_files: "call_get_service ev s = (res, s') \<Longrightarrow> files s' = files s"
  by (auto simp: call_get_service_def emit_def split: prod.splits)

lemma run_callback_files: "run_callback name callback s = (res, s') \<Longrightarrow> files s' = files s"
  by (auto simp: run_callback_def emit_def split: prod.splits)

lemma execute_api_loop_files:
  "execute_api_loop name callback idx s = (res, s') \<Longrightarrow> files s' = files s"
proof (induction idx arbitrary: s)
  case Nil
  then show ?case by simp
next
  case (Cons i rest)
  then show ?case
    by (auto simp: emit_def split: prod.splits sum.splits if_splits dest!: run_callback_files)
qed

lemma execute_api_files: "execute_api name callback s = (res, s') \<Longrightarrow> files s' = files s"
  unfolding execute_api_def by (rule execute_api_loop_files)

lemma create_album_files: "create_album ev t s = (res, s') \<Longrightarrow> files s' = files s"
  by (auto simp: create_album_def split: prod.splits sum.splits option.splits
           dest!: call_get_service_files execute_api_files)

lemma upload_image_files: "upload_image ev album p s = (res, s') \<Longrightarrow> files s' = files s"
  by (auto simp: upload_image_def split: prod.splits sum.splits option.splits list.splits if_splits
           dest!: call_get_service_files execute_api_files)

lemma get_album_list_loop_files:
  assumes "get_album_list_loop ev tok acc s = Some rs"
  shows "files (snd rs) = files s"
proof (rule get_album_list_loop.raw_induct
         [where P = "\<lambda>ev tok acc s rs. files (snd rs) = files s", OF _ assms], goal_cases)
  case (1 loop ev tok acc s rs)
  note IH = "1"(1) and step = "1"(2)
  from step show ?case
    by (auto split: prod.splits sum.splits option.splits
             dest!: call_get_service_files execute_api_files IH)
qed

lemma get_album_id_files:
  "get_album_id cfg ev s = Some (res, s') \<Longrightarrow> files s' = files s"
  by (auto simp: get_album_id_def get_album_def get_album_list_def
           split: if_splits prod.splits sum.splits option.splits
           dest!: get_album_list_loop_files create_album_files)

lemma upload_step_files:
  "upload_step cfg ev p s = Some (res, s') \<Longrightarrow> files s' = files s"
  by (auto simp: upload_step_def split: prod.splits sum.splits option.splits
           dest!: get_album_id_files upload_image_files)




text \<open>
  Claim C4, evaluated on the code. Every request to the library times out, an error
  that is not an authentication error, so each retry wrapper gives up after three
  attempts and returns \<^verbatim>\<open>None\<close>. None of the three operations hands an absent or failed
  result to its caller: \<^verbatim>\<open>get_album_list\<close> and \<^verbatim>\<open>create_album\<close> raise \<^verbatim>\<open>TypeError\<close> on
  \<^verbatim>\<open>"albums" not in response\<close> and \<^verbatim>\<open>"id" not in response\<close>, and \<^verbatim>\<open>upload_image\<close>
  raises \<^verbatim>\<open>AttributeError\<close> on \<^verbatim>\<open>response.status_code\<close>.
\<close>

theorem exhausted_retries_raise:
  "\<not> is_auth_error (str timeout_error)
   \<and> get_album_list unreachable_env \<lparr>remote = [], files = {}, trace = []\<rparr>
       = Some (Inl none_not_iterable,
               \<lparr>remote = [], files = {},
                trace = [GetService, Call ''albums.list'', Sleep 3, Call ''albums.list'',
                         Sleep 3, Call ''albums.list'']\<rparr>)
   \<and> create_album unreachable_env ''Garden'' \<lparr>remote = [], files = {}, trace = []\<rparr>
       = (Inl none_not_iterable,
          \<lparr>remote = [], files = {},
           trace = [GetService, Call ''albums.create'', Sleep 3, Call ''albums.create'',
                    Sleep 3, Call ''albums.create'']\<rparr>)
   \<and> upload_image unreachable_env (Some ''album-'') ''photos/camera_20240101_1200.jpg''
         \<lparr>remote = [], files = {''photos/camera_20240101_1200.jpg''}, trace = []\<rparr>
       = (Inl none_no_status_code,
          \<lparr>remote = [], files = {''photos/camera_20240101_1200.jpg''},
           trace = [GetService, Call ''requests.post'', Sleep 3, Call ''requests.post'',
                    Sleep 3, Call ''requests.post'']\<rparr>)"
  by code_simp

theorem exhausted_retries_raise_witness:
  "(\<exists>s'. get_album_list unreachable_env \<lparr>remote = [], files = {}, trace = []\<rparr>
           = Some (Inl none_not_iterable, s'))
   \<and> (\<exists>s'. create_album unreachable_env ''Garden'' \<lparr>remote = [], files = {}, trace = []\<rparr>
           = (Inl none_not_iterable, s'))
   \<and> (\<exists>s'. upload_image unreachable_env (Some ''album-'') ''photos/camera_20240101_1200.jpg''
             \<lparr>remote = [], files = {''photos/camera_20240101_1200.jpg''}, trace = []\<rparr>
           = (Inl none_no_status_code, s'))"
  using exhausted_retries_raise by simp

subsection \<open>Album listing\<close>







subsection \<open>Album resolution\<close>






subsection \<open>Upload\<close>

text \<open>
  Claim C9. \<^verbatim>\<open>upload_image\<close> returns \<^verbatim>\<open>False\<close> without raising in exactly three cases:
  the local file does not exist, and then the state is unchanged, so nothing was sent;
  the response of the byte upload has a status code other than 200; or the response of
  the batch creation has no \<^verbatim>\<open>newMediaItemResults\<close> field. It returns \<^verbatim>\<open>True\<close> exactly
  when the file exists, the byte upload answers 200 and the batch creation answers with
  a first result that has a status.
\<close>

theorem upload_image_results:
  "(image_path \<notin> files s \<longrightarrow> upload_image ev album image_path s = (Inr False, s))
   \<and> (upload_image ev album image_path s = (Inr False, s') \<longleftrightarrow>
        (image_path \<notin> files s \<and> s' = s)
        \<or> (image_path \<in> files s
           \<and> (\<exists>s1 response.
                 call_get_service ev s = (Inr (), s1)
               \<and> execute_api ''requests.post'' (requests_post ev image_path) s1
                   = (Inr (Some response), s')
               \<and> status_code response \<noteq> 200))
        \<or> (image_path \<in> files s
           \<and> (\<exists>s1 s2 s3 response created.
                 call_get_service ev s = (Inr (), s1)
               \<and> execute_api ''requests.post'' (requests_post ev image_path) s1
                   = (Inr (Some response), s2)
               \<and> status_code response = 200
               \<and> call_get_service ev s2 = (Inr (), s3)
               \<and> execute_api ''mediaItems.batchCreate''
                     (batch_create ev album (content response)) s3
                   = (Inr (Some created), s')
               \<and> newMediaItemResults created = None)))
   \<and> (upload_image ev album image_path s = (Inr True, s') \<longleftrightarrow>
        image_path \<in> files s
        \<and> (\<exists>s1 s2 s3 response created item items st.
                 call_get_service ev s = (Inr (), s1)
               \<and> execute_api ''requests.post'' (requests_post ev image_path) s1
                   = (Inr (Some response), s2)
               \<and> status_code response = 200
               \<and> call_get_service ev s2 = (Inr (), s3)
               \<and> execute_api ''mediaItems.batchCreate''
                     (batch_create ev album (content response)) s3
                   = (Inr (Some created), s')
               \<and> newMediaItemResults created = Some (item # items)
               \<and> status item = Some st))"
proof (intro conjI)
  show "image_path \<notin> files s \<longrightarrow> upload_image ev album image_path s = (Inr False, s)"
    by (simp add: upload_image_def)
next
  show "upload_image ev album image_path s = (Inr False, s') \<longleftrightarrow>
        (image_path \<notin> files s \<and> s' = s)
        \<or> (image_path \<in> files s
           \<and> (\<exists>s1 response.
                 call_get_service ev s = (Inr (), s1)
               \<and> execute_api ''requests.post'' (requests_post ev image_path) s1
                   = (Inr (Some response), s')
               \<and> status_code response \<noteq> 200))
        \<or> (image_path \<in> files s
           \<and> (\<exists>s1 s2 s3 response created.
                 call_get_service ev s = (Inr (), s1)
               \<and> execute_api ''requests.post'' (requests_post ev image_path) s1
                   = (Inr (Some response), s2)
               \<and> status_code response = 200
               \<and> call_get_service ev s2 = (Inr (), s3)
               \<and> execute_api ''mediaItems.batchCreate''
                     (batch_create ev album (content response)) s3
                   = (Inr (Some created), s')
               \<and> newMediaItemResults created = None))"
    unfolding upload_image_def
    by (auto split: prod.splits sum.splits option.splits list.splits if_splits)
next
  show "upload_image ev album image_path s = (Inr True, s') \<longleftrightarrow>
        image_path \<in> files s
        \<and> (\<exists>s1 s2 s3 response created item items st.
                 call_get_service ev s = (Inr (), s1)
               \<and> execute_api ''requests.post'' (requests_post ev image_path) s1
                   = (Inr (Some response), s2)
               \<and> status_code response = 200
               \<and> call_get_service ev s2 = (Inr (), s3)
               \<and> execute_api ''mediaItems.batchCreate''
                     (batch_create ev album (content response)) s3
                   = (Inr (Some created), s')
               \<and> newMediaItemResults created = Some (item # items)
               \<and> status item = Some st)"
    unfolding upload_image_def
    by (auto split: prod.splits sum.splits option.splits list.splits if_splits)
qed

theorem upload_image_results_witness:
  "''photos/missing.jpg'' \<notin> files (\<lparr>remote = [garden], files = {}, trace = []\<rparr> :: album list state)
   \<and> upload_image library_env (Some ''album-'') ''photos/missing.jpg''
         \<lparr>remote = [garden], files = {}, trace = []\<rparr>
       = (Inr False, \<lparr>remote = [garden], files = {}, trace = []\<rparr>)
   \<and> upload_image busy_env (Some ''album-'') ''photos/camera_20240101_1200.jpg''
         \<lparr>remote = [garden], files = {''photos/camera_20240101_1200.jpg''}, trace = []\<rparr>
       = (Inr False,
          \<lparr>remote = [garden], files = {''photos/camera_20240101_1200.jpg''},
           trace = [GetService, Call ''requests.post'']\<rparr>)
   \<and> upload_image library_env (Some ''album-'') ''photos/camera_20240101_1200.jpg''
         \<lparr>remote = [garden], files = {''photos/camera_20240101_1200.jpg''}, trace = []\<rparr>
       = (Inr True,
          \<lparr>remote = [garden], files = {''photos/camera_20240101_1200.jpg''},
           trace = [GetService, Call ''requests.post'', GetService,
                    Call ''mediaItems.batchCreate'']\<rparr>)"
proof -
  let ?p = "''photos/camera_20240101_1200.jpg''"
  let ?s = "\<lparr>remote = [garden], files = {?p}, trace = []\<rparr> :: album list state"
  have missing: "upload_image library_env (Some ''album-'') ''photos/missing.jpg''
         \<lparr>remote = [garden], files = {}, trace = []\<rparr>
       = (Inr False, \<lparr>remote = [garden], files = {}, trace = []\<rparr>)"
    using upload_image_results
          [where image_path = "''photos/missing.jpg''" and ev = library_env
             and album = "Some ''album-''"
             and s = "\<lparr>remote = [garden], files = {}, trace = []\<rparr>"]
    by simp
  have busy: "upload_image busy_env (Some ''album-'') ?p ?s
       = (Inr False, \<lparr>remote = [garden], files = {?p},
           trace = [GetService, Call ''requests.post'']\<rparr>)"
    using upload_image_results
          [where image_path = ?p and ev = busy_env and album = "Some ''album-''" and s = ?s
             and s' = "\<lparr>remote = [garden], files = {?p},
                         trace = [GetService, Call ''requests.post'']\<rparr>"]
    by (simp add: busy_env_def library_env_def call_get_service_def execute_api_unfold
          run_callback_def emit_def)
  have ok: "upload_image library_env (Some ''album-'') ?p ?s
       = (Inr True, \<lparr>remote = [garden], files = {?p},
           trace = [GetService, Call ''requests.post'', GetService,
                    Call ''mediaItems.batchCreate'']\<rparr>)"
    using upload_image_results
          [where image_path = ?p and ev = library_env and album = "Some ''album-''" and s = ?s
             and s' = "\<lparr>remote = [garden], files = {?p},
                         trace = [GetService, Call ''requests.post'', GetService,
                                  Call ''mediaItems.batchCreate'']\<rparr>"]
    by (simp add: library_env_def call_get_service_def execute_api_unfold
          run_callback_def emit_def)
  from missing busy ok show ?thesis by simp
qed

section \<open>Properties of the scheduler job\<close>

lemma save_photo_written:
  "save_photo cam save_path st with_datetime s = (Inr True, s') \<Longrightarrow> save_path \<in> files s'"
  by (auto simp: save_photo_def emit_def emits_def Let_def split: sum.splits if_splits)

lemma not_auth_error_markers:
  "\<not> is_auth_error msg \<Longrightarrow> \<not> (py_in ''invalid_grant'' msg \<or> py_in ''expired'' msg)"
  by (simp add: is_auth_error_def)

text \<open>
  Claim C8. In a job execution where the capture succeeds and the upload is enabled,
  if the upload step (album resolution and upload) ends without raising an error whose
  message contains \<^verbatim>\<open>invalid_grant\<close>, \<^verbatim>\<open>expired\<close> or \<^verbatim>\<open>revoked\<close>, be it that it returns
  success, returns failure, or raises another error, then the job returns normally and
  the local image file has been removed: it is absent afterwards.
\<close>

theorem camera_job_removes_file:
  assumes cam_on: "camera_use cfg" and gp_on: "google_photos_use cfg"
    and path: "photo_image_path = photo_dir cfg @ ''/camera_'' @ now @ ''.jpg''"
    and captured: "save_photo cam photo_image_path (camera_settings cfg) True s = (Inr True, s1)"
    and upload: "upload_step cfg ev photo_image_path s1 = Some (res, s2)"
    and no_auth: "\<forall>e. res = Inl e \<longrightarrow> \<not> is_auth_error (str e)"
  shows "camera_job cfg cam ev now s
           = Some (Returned (),
                   emit (OsRemove photo_image_path)
                     (s2\<lparr>files := files s2 - {photo_image_path}\<rparr>))
         \<and> photo_image_path \<notin>
             files (emit (OsRemove photo_image_path)
                     (s2\<lparr>files := files s2 - {photo_image_path}\<rparr>))"
proof -
  have "photo_image_path \<in> files s1"
    using captured by (rule save_photo_written)
  then have present: "photo_image_path \<in> files s2"
    using upload_step_files[OF upload] by simp
  then have rm: "os_remove photo_image_path s2
      = (Inr (), emit (OsRemove photo_image_path) (s2\<lparr>files := files s2 - {photo_image_path}\<rparr>))"
    by (simp add: os_remove_def)
  have job: "camera_job cfg cam ev now s
           = Some (Returned (),
                   emit (OsRemove photo_image_path)
                     (s2\<lparr>files := files s2 - {photo_image_path}\<rparr>))"
  proof (cases res)
    case (Inr uploaded)
    with upload rm have "upload_and_remove cfg ev photo_image_path s1
        = Some (Inr (), emit (OsRemove photo_image_path) (s2\<lparr>files := files s2 - {photo_image_path}\<rparr>))"
      by (simp add: upload_and_remove_def)
    with cam_on gp_on captured path show ?thesis
      by (simp add: camera_job_def Let_def)
  next
    case (Inl e)
    with no_auth have "\<not> is_auth_error (str e)" by simp
    then have m: "\<not> (py_in ''invalid_grant'' (str e) \<or> py_in ''expired'' (str e))"
      by (rule not_auth_error_markers)
    from Inl upload have "upload_and_remove cfg ev photo_image_path s1 = Some (Inl e, s2)"
      by (simp add: upload_and_remove_def)
    with cam_on gp_on captured path m rm show ?thesis
      by (simp add: camera_job_def Let_def handle_upload_error_def)
  qed
  show ?thesis
    using job by (simp add: emit_def)
qed

theorem camera_job_removes_file_witness:
  "save_photo working_camera ''photos/camera_20240101_1200.jpg''
       (camera_settings photo_config) True
       (\<lparr>remote = [], files = {}, trace = []\<rparr> :: album list state)
     = (Inr True,
        \<lparr>remote = [], files = {''photos/camera_20240101_1200.jpg''}, trace = capture_trace\<rparr>)
   \<and> upload_step photo_config unreachable_env ''photos/camera_20240101_1200.jpg''
         \<lparr>remote = [], files = {''photos/camera_20240101_1200.jpg''}, trace = capture_trace\<rparr>
       = Some (Inl none_not_iterable,
               \<lparr>remote = [], files = {''photos/camera_20240101_1200.jpg''},
                trace = capture_trace
                  @ [GetService, Call ''albums.list'', Sleep 3, Call ''albums.list'', Sleep 3,
                     Call ''albums.list'']\<rparr>)
   \<and> \<not> is_auth_error (str none_not_iterable)
   \<and> camera_job photo_config working_camera unreachable_env ''20240101_1200''
         \<lparr>remote = [], files = {}, trace = []\<rparr>
       = Some (Returned (),
               \<lparr>remote = [], files = {},
                trace = capture_trace
                  @ [GetService, Call ''albums.list'', Sleep 3, Call ''albums.list'', Sleep 3,
                     Call ''albums.list'', OsRemove ''photos/camera_20240101_1200.jpg'']\<rparr>)"
proof -
  let ?p = "''photos/camera_20240101_1200.jpg''"
  let ?s0 = "\<lparr>remote = [], files = {}, trace = []\<rparr> :: album list state"
  let ?s1 = "\<lparr>remote = [], files = {?p}, trace = capture_trace\<rparr> :: album list state"
  let ?s2 = "\<lparr>remote = [], files = {?p},
              trace = capture_trace
                  @ [GetService, Call ''albums.list'', Sleep 3, Call ''albums.list'', Sleep 3,
                     Call ''albums.list'']\<rparr> :: album list state"
  have on: "camera_use photo_config" "google_photos_use photo_config"
    by (simp_all add: photo_config_def)
  have p: "?p = photo_dir photo_config @ ''/camera_'' @ ''20240101_1200'' @ ''.jpg''"
    by (simp add: photo_config_def)
  have cap: "save_photo working_camera ?p (camera_settings photo_config) True ?s0 = (Inr True, ?s1)"
    by code_simp
  have up: "upload_step photo_config unreachable_env ?p ?s1 = Some (Inl none_not_iterable, ?s2)"
    by code_simp
  have na: "\<not> is_auth_error (str none_not_iterable)"
    by code_simp
  then have na': "\<forall>e. (Inl none_not_iterable :: exn + bool) = Inl e \<longrightarrow> \<not> is_auth_error (str e)"
    by simp
  from camera_job_removes_file[OF on p cap up na']
  have job: "camera_job photo_config working_camera unreachable_env ''20240101_1200'' ?s0
       = Some (Returned (),
               \<lparr>remote = [], files = {},
                trace = capture_trace
                  @ [GetService, Call ''albums.list'', Sleep 3, Call ''albums.list'', Sleep 3,
                     Call ''albums.list'', OsRemove ?p]\<rparr>)"
    by (simp add: emit_def)
  from cap up na job show ?thesis
    by (intro conjI) assumption+
qed

text \<open>
  When the upload step raises an error whose message contains \<^verbatim>\<open>invalid_grant\<close> or
  \<^verbatim>\<open>expired\<close>, and the configuration has a notifications section, the job leaves the
  file on disk, publishes the notification if it is switched on and \<^verbatim>\<open>boto3\<close> is
  installed, and exits with status 1.
\<close>

lemma camera_job_auth_failure_exits:
  assumes cam_on: "camera_use cfg" and gp_on: "google_photos_use cfg"
    and path: "photo_image_path = photo_dir cfg @ ''/camera_'' @ now @ ''.jpg''"
    and captured: "save_photo cam photo_image_path (camera_settings cfg) True s = (Inr True, s1)"
    and upload: "upload_step cfg ev photo_image_path s1 = Some (Inl e, s2)"
    and marker: "py_in ''invalid_grant'' (str e) \<or> py_in ''expired'' (str e)"
    and notif: "notifications cfg = Some use"
  shows "\<exists>s3. camera_job cfg cam ev now s = Some (Exited 1, s3)
           \<and> files s3 = files s2 \<and> photo_image_path \<in> files s3
           \<and> trace s3 = trace s2 @ (if use \<and> boto3_installed ev then [SnsPublish] else [])"
proof -
  have "photo_image_path \<in> files s1"
    using captured by (rule save_photo_written)
  then have present: "photo_image_path \<in> files s2"
    using upload_step_files[OF upload] by simp
  from upload have "upload_and_remove cfg ev photo_image_path s1 = Some (Inl e, s2)"
    by (simp add: upload_and_remove_def)
  with cam_on gp_on captured path marker notif present show ?thesis
    by (auto simp: camera_job_def Let_def handle_upload_error_def
          send_auth_error_notification_def emit_def split: prod.splits)
qed

text \<open>
  Without a notifications section the lookup of the flag raises \<^verbatim>\<open>KeyError\<close> inside the
  handler, and the job ends with this exception instead of exiting.
\<close>

lemma camera_job_missing_notifications_raises:
  "camera_job (photo_config\<lparr>notifications := None\<rparr>) working_camera
       (library_env\<lparr>get_service := (\<lambda>r. (Inl refresh_error, r))\<rparr>) ''20240101_1200''
       \<lparr>remote = [], files = {}, trace = []\<rparr>
     = Some (Raised (key_error ''notifications''),
             \<lparr>remote = [], files = {''photos/camera_20240101_1200.jpg''},
              trace = capture_trace @ [GetService]\<rparr>)"
  by code_simp

text \<open>
  Claim C1, evaluated on the code. The credential is rejected with the message
  \<^verbatim>\<open>Token has been revoked\<close>, which the retry wrapper classifies as an authentication
  error. The handler of \<^verbatim>\<open>camera_job\<close> tests for \<^verbatim>\<open>invalid_grant\<close> and \<^verbatim>\<open>expired\<close>
  only: the job removes the local file, publishes no notification although notifications
  are switched on, and returns normally instead of exiting.
\<close>

theorem camera_job_revoked_deletes_file:
  "is_auth_error (str revoked_error)
   \<and> camera_job photo_config working_camera revoked_env ''20240101_1200''
         \<lparr>remote = [], files = {}, trace = []\<rparr>
       = Some (Returned (),
               \<lparr>remote = [], files = {},
                trace = [VideoCapture 0, CapSet CAP_PROP_FOURCC 1196444237,
                         CapSet CAP_PROP_BRIGHTNESS 128, CapSet CAP_PROP_CONTRAST 32,
                         CapSet CAP_PROP_SATURATION 32, CapSet CAP_PROP_AUTO_EXPOSURE 3,
                         Sleep 2, CapRead, PutText, Makedirs ''photos'',
                         Imwrite ''photos/camera_20240101_1200.jpg'', CapRelease,
                         DestroyAllWindows, GetService,
                         OsRemove ''photos/camera_20240101_1200.jpg'']\<rparr>)"
  by code_simp

theorem camera_job_revoked_deletes_file_witness:
  "\<exists>s'. camera_job photo_config working_camera revoked_env ''20240101_1200''
           \<lparr>remote = [], files = {}, trace = []\<rparr> = Some (Returned (), s')
        \<and> ''photos/camera_20240101_1200.jpg'' \<notin> files s'
        \<and> SnsPublish \<notin> set (trace s')"
  using camera_job_revoked_deletes_file by simp

end
